theory Spec2Isabelle
  imports Main
begin

section \<open>Quadratic extension gadget of std/algebra/fields\_bls12377 (e2.go)\<close>

subsection \<open>Circuit variables and the constraint-system builder\<close>

text \<open>
  Modelled from the spec: the builder interface \<open>frontend.API\<close> and the handle
  type \<open>frontend.Variable\<close> are declared outside e2.go. A variable is an opaque
  handle: a constant given by the circuit writer (\<open>e.A0 = 0\<close>, \<open>ext.uSquare\<close>), a
  wire, or what one of the operations \<open>add\<close>, \<open>sub\<close>, \<open>mul\<close>,
  \<open>div_unchecked\<close> of the consumed constraint-system capability returns, a
  variable that denotes the result in the base field. The constructors below are
  those results, and \<open>eval\<close> gives the value a variable takes once the wires are
  assigned.
\<close>

datatype Variable =
    Constant int
  | Wire nat
  | api_Add Variable Variable
  | api_Sub Variable Variable
  | api_Mul Variable Variable
  | api_DivUnchecked Variable Variable

text \<open>
  Modelled from the spec: \<open>div_unchecked\<close> divides in the base field and does
  not assert that the divisor is not zero. The quotient is the product with the
  modular inverse, computed by the extended Euclidean algorithm as
  \<open>big.Int.ModInverse\<close> does: \<open>egcd a b = (g, u, v)\<close> with \<open>u * a + v * b = g\<close>.
  For a divisor that is zero the spec leaves the result open; here it is zero.
\<close>

function egcd :: "nat \<Rightarrow> nat \<Rightarrow> nat \<times> int \<times> int" where
  "egcd a b =
     (if b = 0 then (a, 1, 0)
      else (case egcd b (a mod b) of
              (g, u, v) \<Rightarrow> (g, v, u - int (a div b) * v)))"
  by pat_completeness auto

termination
  by (relation "measure snd") auto

declare egcd.simps [simp del]

definition fp_inverse :: "int \<Rightarrow> int \<Rightarrow> int" where
  "fp_inverse p c = (case egcd (nat (c mod p)) (nat p) of (g, u, v) \<Rightarrow> u mod p)"

text \<open>
  Modelled from the spec: an assignment \<open>w\<close> gives an integer to every wire, and
  values are taken in the base field, the integers modulo \<open>p\<close> with
  representatives in \<open>{0..<p}\<close>.
\<close>

fun eval :: "int \<Rightarrow> (nat \<Rightarrow> int) \<Rightarrow> Variable \<Rightarrow> int" where
  "eval p w (Constant c) = c mod p"
| "eval p w (Wire n) = w n mod p"
| "eval p w (api_Add a b) = (eval p w a + eval p w b) mod p"
| "eval p w (api_Sub a b) = (eval p w a - eval p w b) mod p"
| "eval p w (api_Mul a b) = (eval p w a * eval p w b) mod p"
| "eval p w (api_DivUnchecked a b) = (eval p w a * fp_inverse p (eval p w b)) mod p"

text \<open>The oracle functions this file registers, as the builder identifies them.\<close>

datatype hint_function = Hint_InverseE2 | Hint_DivE2

datatype error = InvalidHintArity nat nat

datatype panic =
    Panic_error error
  | IndexOutOfRange nat nat
  | SliceBoundsOutOfRange nat nat

text \<open>
  Modelled from the spec: the state of the builder behind \<open>frontend.API\<close>.
  \<open>request_hint\<close> allocates new unconstrained variables whose values come from
  the named oracle at solve time and fails only on an arity mismatch;
  \<open>assert_equal\<close> registers a hard equality constraint. Which arities the
  builder rejects is its own static check, the field \<open>validHint\<close> (oracle, number
  of outputs, number of inputs).
\<close>

record builder =
  validHint :: "hint_function \<Rightarrow> nat \<Rightarrow> nat \<Rightarrow> bool"
  nbWires :: nat
  hints :: "(hint_function \<times> Variable list \<times> Variable list) list"
  assertions :: "(Variable \<times> Variable) list"

definition api_NewHint ::
  "builder \<Rightarrow> hint_function \<Rightarrow> nat \<Rightarrow> Variable list \<Rightarrow> error + (Variable list \<times> builder)" where
  "api_NewHint api f nbOutputs inputs =
     (if validHint api f nbOutputs (length inputs)
      then (let res = map Wire [nbWires api ..< nbWires api + nbOutputs]
            in Inr (res, api\<lparr>nbWires := nbWires api + nbOutputs,
                             hints := hints api @ [(f, inputs, res)]\<rparr>))
      else Inl (InvalidHintArity nbOutputs (length inputs)))"

definition api_AssertIsEqual :: "builder \<Rightarrow> Variable \<Rightarrow> Variable \<Rightarrow> builder" where
  "api_AssertIsEqual api a b = api\<lparr>assertions := assertions api @ [(a, b)]\<rparr>"

definition holds :: "int \<Rightarrow> (nat \<Rightarrow> int) \<Rightarrow> Variable \<times> Variable \<Rightarrow> bool" where
  "holds p w c = (eval p w (fst c) = eval p w (snd c))"

definition satisfied :: "int \<Rightarrow> (nat \<Rightarrow> int) \<Rightarrow> builder \<Rightarrow> bool" where
  "satisfied p w api = list_all (holds p w) (assertions api)"

subsection \<open>The element type and the configuration\<close>

record E2 =
  A0 :: Variable
  A1 :: Variable

text \<open>
  \<open>ext\<close> is the package-level tower configuration, declared in another file of the
  package; e2.go reads only its field \<open>uSquare\<close>. It is a parameter of every
  operation that reads it.
\<close>

record Extension =
  uSquare :: int

text \<open>
  A method with receiver \<open>e *E2\<close> takes the contents of \<open>e\<close> before the call and
  returns its contents after it (the returned pointer is the receiver). Operands of
  type \<open>E2\<close> are passed by value, so \<open>e.Mul(api, *e, *e)\<close> is
  \<open>E2_Mul ext api e e e\<close>. The builder is passed through every method, as \<open>api\<close> is.
\<close>

definition E2_SetZero :: "E2 \<Rightarrow> E2" where
  "E2_SetZero e = (let e = e\<lparr>A0 := Constant 0\<rparr>; e = e\<lparr>A1 := Constant 0\<rparr> in e)"

definition E2_SetOne :: "E2 \<Rightarrow> E2" where
  "E2_SetOne e = (let e = e\<lparr>A0 := Constant 1\<rparr>; e = e\<lparr>A1 := Constant 0\<rparr> in e)"

definition index :: "'a list \<Rightarrow> nat \<Rightarrow> panic + 'a" where
  "index xs i = (if i < length xs then Inr (xs ! i) else Inl (IndexOutOfRange i (length xs)))"

definition slice_to :: "'a list \<Rightarrow> nat \<Rightarrow> panic + 'a list" where
  "slice_to xs n = (if n \<le> length xs then Inr (take n xs) else Inl (SliceBoundsOutOfRange n (length xs)))"

definition E2_assign :: "E2 \<Rightarrow> Variable list \<Rightarrow> panic + E2" where
  "E2_assign e e1 =
     (case index e1 0 of Inl pn \<Rightarrow> Inl pn
      | Inr v0 \<Rightarrow>
          (let e = e\<lparr>A0 := v0\<rparr> in
           case index e1 1 of Inl pn \<Rightarrow> Inl pn
           | Inr v1 \<Rightarrow> Inr (e\<lparr>A1 := v1\<rparr>)))"

definition E2_Neg :: "builder \<Rightarrow> E2 \<Rightarrow> E2 \<Rightarrow> E2 \<times> builder" where
  "E2_Neg api e e1 =
     (let e = e\<lparr>A0 := api_Sub (Constant 0) (A0 e1)\<rparr>;
          e = e\<lparr>A1 := api_Sub (Constant 0) (A1 e1)\<rparr>
      in (e, api))"

definition E2_Add :: "builder \<Rightarrow> E2 \<Rightarrow> E2 \<Rightarrow> E2 \<Rightarrow> E2 \<times> builder" where
  "E2_Add api e e1 e2 =
     (let e = e\<lparr>A0 := api_Add (A0 e1) (A0 e2)\<rparr>;
          e = e\<lparr>A1 := api_Add (A1 e1) (A1 e2)\<rparr>
      in (e, api))"

definition E2_Double :: "builder \<Rightarrow> E2 \<Rightarrow> E2 \<Rightarrow> E2 \<times> builder" where
  "E2_Double api e e1 =
     (let e = e\<lparr>A0 := api_Add (A0 e1) (A0 e1)\<rparr>;
          e = e\<lparr>A1 := api_Add (A1 e1) (A1 e1)\<rparr>
      in (e, api))"

definition E2_Sub :: "builder \<Rightarrow> E2 \<Rightarrow> E2 \<Rightarrow> E2 \<Rightarrow> E2 \<times> builder" where
  "E2_Sub api e e1 e2 =
     (let e = e\<lparr>A0 := api_Sub (A0 e1) (A0 e2)\<rparr>;
          e = e\<lparr>A1 := api_Sub (A1 e1) (A1 e2)\<rparr>
      in (e, api))"

definition E2_Mul :: "Extension \<Rightarrow> builder \<Rightarrow> E2 \<Rightarrow> E2 \<Rightarrow> E2 \<Rightarrow> E2 \<times> builder" where
  "E2_Mul ext api e e1 e2 =
     (let l1 = api_Add (A0 e1) (A1 e1);
          l2 = api_Add (A0 e2) (A1 e2);
          u = api_Mul l1 l2;
          ac = api_Mul (A0 e1) (A0 e2);
          bd = api_Mul (A1 e1) (A1 e2);
          l31 = api_Add ac bd;
          e = e\<lparr>A1 := api_Sub u l31\<rparr>;
          l41 = api_Mul bd (Constant (uSquare ext));
          e = e\<lparr>A0 := api_Add ac l41\<rparr>
      in (e, api))"

definition E2_Square :: "Extension \<Rightarrow> builder \<Rightarrow> E2 \<Rightarrow> E2 \<Rightarrow> E2 \<times> builder" where
  "E2_Square ext api e x =
     (let c0 = api_Add (A0 x) (A1 x);
          c2 = api_Mul (A1 x) (Constant (uSquare ext));
          c2 = api_Add c2 (A0 x);
          c0 = api_Mul c0 c2;
          c2 = api_Mul (A0 x) (A1 x);
          c2 = api_Add c2 c2;
          e = e\<lparr>A1 := c2\<rparr>;
          c2 = api_Add c2 c2;
          e = e\<lparr>A0 := api_Add c0 c2\<rparr>
      in (e, api))"

definition E2_DivByFp :: "builder \<Rightarrow> E2 \<Rightarrow> E2 \<Rightarrow> Variable \<Rightarrow> E2 \<times> builder" where
  "E2_DivByFp api e e1 c =
     (let e = e\<lparr>A0 := api_DivUnchecked (A0 e1) c\<rparr>;
          e = e\<lparr>A1 := api_DivUnchecked (A1 e1) c\<rparr>
      in (e, api))"

definition E2_MulByFp :: "builder \<Rightarrow> E2 \<Rightarrow> E2 \<Rightarrow> Variable \<Rightarrow> E2 \<times> builder" where
  "E2_MulByFp api e e1 c =
     (let e = e\<lparr>A0 := api_Mul (A0 e1) c\<rparr>;
          e = e\<lparr>A1 := api_Mul (A1 e1) c\<rparr>
      in (e, api))"

definition E2_MulByNonResidue :: "Extension \<Rightarrow> builder \<Rightarrow> E2 \<Rightarrow> E2 \<Rightarrow> E2 \<times> builder" where
  "E2_MulByNonResidue ext api e e1 =
     (let x = A0 e1;
          e = e\<lparr>A0 := api_Mul (A1 e1) (Constant (uSquare ext))\<rparr>;
          e = e\<lparr>A1 := x\<rparr>
      in (e, api))"

definition E2_Conjugate :: "builder \<Rightarrow> E2 \<Rightarrow> E2 \<Rightarrow> E2 \<times> builder" where
  "E2_Conjugate api e e1 =
     (let e = e\<lparr>A0 := A0 e1\<rparr>;
          e = e\<lparr>A1 := api_Sub (Constant 0) (A1 e1)\<rparr>
      in (e, api))"

definition E2_MustBeEqual :: "builder \<Rightarrow> E2 \<Rightarrow> E2 \<Rightarrow> builder" where
  "E2_MustBeEqual api e other =
     (let api = api_AssertIsEqual api (A0 e) (A0 other);
          api = api_AssertIsEqual api (A1 e) (A1 other)
      in api)"

text \<open>
  The contents of a local declared \<open>var e3 E2\<close>. In Go both coordinates are the nil
  interface, which is no circuit variable; every method below overwrites both
  coordinates of its receiver before anything reads them, so the placeholder is
  never observed.
\<close>

definition E2_zero_value :: E2 where
  "E2_zero_value = \<lparr>A0 = Constant 0, A1 = Constant 0\<rparr>"

definition E2_Inverse :: "Extension \<Rightarrow> builder \<Rightarrow> E2 \<Rightarrow> E2 \<Rightarrow> panic + (E2 \<times> builder)" where
  "E2_Inverse ext api e e1 =
     (case api_NewHint api Hint_InverseE2 2 [A0 e1, A1 e1] of
        Inl err \<Rightarrow> Inl (Panic_error err)
      | Inr (res, api) \<Rightarrow>
          (let e3 = E2_zero_value; one = E2_zero_value in
           case slice_to res 2 of Inl pn \<Rightarrow> Inl pn
           | Inr r \<Rightarrow>
          (case E2_assign e3 r of Inl pn \<Rightarrow> Inl pn
           | Inr e3 \<Rightarrow>
          (let one = E2_SetOne one;
               (e3, api) = E2_Mul ext api e3 e3 e1;
               api = E2_MustBeEqual api e3 one in
           case slice_to res 2 of Inl pn \<Rightarrow> Inl pn
           | Inr r \<Rightarrow>
          (case E2_assign e r of Inl pn \<Rightarrow> Inl pn
           | Inr e \<Rightarrow> Inr (e, api))))))"

definition E2_DivUnchecked ::
  "Extension \<Rightarrow> builder \<Rightarrow> E2 \<Rightarrow> E2 \<Rightarrow> E2 \<Rightarrow> panic + (E2 \<times> builder)" where
  "E2_DivUnchecked ext api e e1 e2 =
     (case api_NewHint api Hint_DivE2 2 [A0 e1, A1 e1, A0 e2, A1 e2] of
        Inl err \<Rightarrow> Inl (Panic_error err)
      | Inr (res, api) \<Rightarrow>
          (let e3 = E2_zero_value in
           case slice_to res 2 of Inl pn \<Rightarrow> Inl pn
           | Inr r \<Rightarrow>
          (case E2_assign e3 r of Inl pn \<Rightarrow> Inl pn
           | Inr e3 \<Rightarrow>
          (let (e3, api) = E2_Mul ext api e3 e3 e2;
               api = E2_MustBeEqual api e3 e1 in
           case slice_to res 2 of Inl pn \<Rightarrow> Inl pn
           | Inr r \<Rightarrow>
          (case E2_assign e r of Inl pn \<Rightarrow> Inl pn
           | Inr e \<Rightarrow> Inr (e, api))))))"

subsection \<open>The oracle functions\<close>

text \<open>
  The hints compute with \<open>bls12377.E2\<close> of the out-of-circuit library, which is
  not part of this repository: its operations are parameters. \<open>'fp\<close> is the
  library's base-field element; an extension element is a pair of them.
  \<open>res\<close> holds the integers the output pointers refer to; the function returns
  them updated, with the error it returns (\<open>None\<close> is \<open>nil\<close>).
\<close>

record 'fp bls12377 =
  SetBigInt :: "int \<Rightarrow> 'fp"
  ToBigIntRegular :: "'fp \<Rightarrow> int"
  Inverse :: "'fp \<times> 'fp \<Rightarrow> 'fp \<times> 'fp"
  Mul :: "'fp \<times> 'fp \<Rightarrow> 'fp \<times> 'fp \<Rightarrow> 'fp \<times> 'fp"

type_synonym ecc_ID = nat

definition InverseE2Hint ::
  "'fp bls12377 \<Rightarrow> ecc_ID \<Rightarrow> int list \<Rightarrow> int list \<Rightarrow> panic + (int list \<times> error option)" where
  "InverseE2Hint lib curve inputs res =
     (case index inputs 0 of Inl pn \<Rightarrow> Inl pn
      | Inr i0 \<Rightarrow>
     (case index inputs 1 of Inl pn \<Rightarrow> Inl pn
      | Inr i1 \<Rightarrow>
     (let a = (SetBigInt lib i0, SetBigInt lib i1);
          c = Inverse lib a in
      case index res 0 of Inl pn \<Rightarrow> Inl pn
      | Inr r0 \<Rightarrow>
     (let res = res[0 := ToBigIntRegular lib (fst c)] in
      case index res 1 of Inl pn \<Rightarrow> Inl pn
      | Inr r1 \<Rightarrow>
     (let res = res[1 := ToBigIntRegular lib (snd c)] in
      Inr (res, None))))))"

definition DivE2Hint ::
  "'fp bls12377 \<Rightarrow> ecc_ID \<Rightarrow> int list \<Rightarrow> int list \<Rightarrow> panic + (int list \<times> error option)" where
  "DivE2Hint lib curve inputs res =
     (case index inputs 0 of Inl pn \<Rightarrow> Inl pn
      | Inr i0 \<Rightarrow>
     (case index inputs 1 of Inl pn \<Rightarrow> Inl pn
      | Inr i1 \<Rightarrow>
     (case index inputs 2 of Inl pn \<Rightarrow> Inl pn
      | Inr i2 \<Rightarrow>
     (case index inputs 3 of Inl pn \<Rightarrow> Inl pn
      | Inr i3 \<Rightarrow>
     (let a = (SetBigInt lib i0, SetBigInt lib i1);
          b = (SetBigInt lib i2, SetBigInt lib i3);
          c = Inverse lib b;
          c = Mul lib c a in
      case index res 0 of Inl pn \<Rightarrow> Inl pn
      | Inr r0 \<Rightarrow>
     (let res = res[0 := ToBigIntRegular lib (fst c)] in
      case index res 1 of Inl pn \<Rightarrow> Inl pn
      | Inr r1 \<Rightarrow>
     (let res = res[1 := ToBigIntRegular lib (snd c)] in
      Inr (res, None))))))))"

subsection \<open>Semantics of equality, and the concrete field\<close>

text \<open>
  Two elements are equal under a witness when the two constraints that
  \<open>MustBeEqual\<close> emits for them hold.
\<close>

definition E2_equal :: "int \<Rightarrow> (nat \<Rightarrow> int) \<Rightarrow> E2 \<Rightarrow> E2 \<Rightarrow> bool" where
  "E2_equal p w x y =
     (eval p w (A0 x) = eval p w (A0 y) \<and> eval p w (A1 x) = eval p w (A1 y))"

definition prime_modulus :: "int \<Rightarrow> bool" where
  "prime_modulus p = (1 < p \<and> (\<forall>d \<in> {2..<p}. \<not> d dvd p))"

text \<open>
  The modulus of \<open>bw6-761/fr\<close>, the field the circuit is compiled over (it is the
  base field of BLS12-377), and an instance of the library interface over a modulus
  \<open>q\<close> for the extension \<open>u\<^sup>2 = -5\<close>; both serve to run the definitions on
  concrete inputs, as does a builder that holds nothing yet.
\<close>

definition fr_Modulus :: int where
  "fr_Modulus = 258664426012969094010652733694893533536393512754914660539884262666720468348340822774968888139573360124440321458177"

definition new_builder :: "(hint_function \<Rightarrow> nat \<Rightarrow> nat \<Rightarrow> bool) \<Rightarrow> builder" where
  "new_builder valid = \<lparr>validHint = valid, nbWires = 0, hints = [], assertions = []\<rparr>"

definition fp2_library :: "int \<Rightarrow> int bls12377" where
  "fp2_library q =
     \<lparr>SetBigInt = (\<lambda>z. z mod q),
      ToBigIntRegular = (\<lambda>z. z),
      Inverse = (\<lambda>(a, b). let t = fp_inverse q ((a * a + 5 * (b * b)) mod q)
                           in ((a * t) mod q, (- (b * t)) mod q)),
      Mul = (\<lambda>(a, b) (c, d). ((a * c - 5 * (b * d)) mod q, (a * d + b * c) mod q))\<rparr>"

text \<open>
  The element made of the two wires that a two-output hint request allocates in
  the builder \<open>api\<close>.
\<close>

definition hinted :: "builder \<Rightarrow> E2" where
  "hinted api = \<lparr>A0 = Wire (nbWires api), A1 = Wire (Suc (nbWires api))\<rparr>"

text \<open>
  Concrete inputs: the configuration with \<open>uSquare = -5\<close>, a builder that accepts
  every hint with at least one output and one that accepts only single-output
  hints, two elements, and the values of the inverse of \<open>2 + 3u\<close> and of the
  quotient \<open>(5 + 7u) / (2 + 3u)\<close> modulo \<open>fr_Modulus\<close>.
\<close>

definition ext5 :: Extension where
  "ext5 = \<lparr>uSquare = - 5\<rparr>"

definition accepting :: builder where
  "accepting = new_builder (\<lambda>f no ni. 0 < no)"

definition rejecting :: builder where
  "rejecting = new_builder (\<lambda>f no ni. no = 1)"

definition x23 :: E2 where
  "x23 = \<lparr>A0 = Constant 2, A1 = Constant 3\<rparr>"

definition a57 :: E2 where
  "a57 = \<lparr>A0 = Constant 5, A1 = Constant 7\<rparr>"

definition inverse_values :: "nat \<Rightarrow> int" where
  "inverse_values n = [137250511761983600903611654613616976978494516971995534164020221006831268919527783513248797788345048229294864447196,
     52788658369993692655235251774468068068651737296921359293853931156473564969049147505095691457055787780498024787383] ! n"

definition quotient_values :: "nat \<Rightarrow> int" where
  "quotient_values n = [131971645924984231638088129436170170171629343242303398234634827891183912422622868762739228642639469451245061968460,
     190039170131977293558846906388085045047146254268916893457874152163304833888576931018344489245400836009792889234579] ! n"

lemmas examples = ext5_def accepting_def rejecting_def x23_def a57_def new_builder_def

subsection \<open>Equality\<close>

text \<open>
  The constraints of \<open>MustBeEqual\<close> hold exactly when the two elements are equal.
\<close>

lemma MustBeEqual_satisfied:
  "satisfied p w (E2_MustBeEqual api x y) = (satisfied p w api \<and> E2_equal p w x y)"
  by (auto simp add: satisfied_def E2_MustBeEqual_def api_AssertIsEqual_def Let_def holds_def
      E2_equal_def)

lemma eval_mod [simp]: "eval p w v mod p = eval p w v"
  by (cases v) simp_all

subsection \<open>Multiplication\<close>

lemma E2_Mul_A0:
  "eval p w (A0 (fst (E2_Mul ext api e x y))) =
     (eval p w (A0 x) * eval p w (A0 y) + uSquare ext * (eval p w (A1 x) * eval p w (A1 y))) mod p"
  unfolding E2_Mul_def Let_def
  apply (simp add: mod_simps)
  apply (rule arg_cong[where f="\<lambda>t. t mod p"])
  apply (simp add: algebra_simps)
  done

lemma E2_Mul_A1:
  "eval p w (A1 (fst (E2_Mul ext api e x y))) =
     (eval p w (A0 x) * eval p w (A1 y) + eval p w (A1 x) * eval p w (A0 y)) mod p"
  unfolding E2_Mul_def Let_def
  apply (simp add: mod_simps)
  apply (rule arg_cong[where f="\<lambda>t. t mod p"])
  apply (simp add: algebra_simps)
  done

text \<open>
  C2: the product computed with three multiplications has the coordinates of the
  schoolbook product, \<open>x0 * y0 + nonResidue * x1 * y1\<close> and \<open>x0 * y1 + x1 * y0\<close>,
  in the base field, for every pair of elements, every non-residue and every
  witness.
\<close>

theorem Mul_is_schoolbook:
  "eval p w (A0 (fst (E2_Mul ext api e x y))) =
     (eval p w (A0 x) * eval p w (A0 y)
        + uSquare ext * eval p w (A1 x) * eval p w (A1 y)) mod p
   \<and> eval p w (A1 (fst (E2_Mul ext api e x y))) =
     (eval p w (A0 x) * eval p w (A1 y) + eval p w (A1 x) * eval p w (A0 y)) mod p"
  by (simp add: E2_Mul_A0 E2_Mul_A1 mult.assoc)

subsection \<open>Squaring\<close>

lemma E2_Square_A1:
  "eval p w (A1 (fst (E2_Square ext api e x))) = (2 * (eval p w (A0 x) * eval p w (A1 x))) mod p"
  unfolding E2_Square_def Let_def
  by (simp add: mod_simps)

text \<open>
  The first coordinate of the square carries the cross product with the factor
  \<open>uSquare + 1 + 4\<close>.
\<close>

lemma E2_Square_A0:
  "eval p w (A0 (fst (E2_Square ext api e x))) =
     (eval p w (A0 x) * eval p w (A0 x) + uSquare ext * (eval p w (A1 x) * eval p w (A1 x))
        + (uSquare ext + 5) * (eval p w (A0 x) * eval p w (A1 x))) mod p"
  unfolding E2_Square_def Let_def
  apply (simp add: mod_simps)
  apply (rule arg_cong[where f="\<lambda>t. t mod p"])
  apply (simp add: algebra_simps)
  done

lemma mod_add_multiple:
  fixes a k t p :: int
  assumes "k mod p = 0"
  shows "(a + k * t) mod p = a mod p"
proof -
  from assms have "p dvd k" by (simp add: dvd_eq_mod_eq_0)
  then have "p dvd k * t" by simp
  then have "(k * t) mod p = 0" by (simp add: dvd_eq_mod_eq_0)
  then have "(a + k * t) mod p = (a mod p + 0) mod p"
    by (metis mod_add_eq)
  then show ?thesis by simp
qed

text \<open>
  C1: with the non-residue of the tower, \<open>uSquare = -5\<close> in the base field, the
  square of every element has the coordinates of its product with itself.
\<close>

theorem Square_eq_Mul:
  assumes "(uSquare ext + 5) mod p = 0"
  shows "E2_equal p w (fst (E2_Square ext api e x)) (fst (E2_Mul ext api e x x))"
proof -
  have a0: "eval p w (A0 (fst (E2_Square ext api e x))) = eval p w (A0 (fst (E2_Mul ext api e x x)))"
    unfolding E2_Square_A0 E2_Mul_A0 using mod_add_multiple [OF assms] by simp
  have a1: "eval p w (A1 (fst (E2_Square ext api e x))) = eval p w (A1 (fst (E2_Mul ext api e x x)))"
    unfolding E2_Square_A1 E2_Mul_A1
    by (rule arg_cong[where f="\<lambda>t. t mod p"]) (simp add: algebra_simps)
  show ?thesis unfolding E2_equal_def using a0 a1 by simp
qed

theorem Square_eq_Mul_witness:
  "(uSquare \<lparr>uSquare = - 5\<rparr> + 5) mod fr_Modulus = 0
   \<and> E2_equal fr_Modulus (\<lambda>n. 7 + int n)
       (fst (E2_Square \<lparr>uSquare = - 5\<rparr> (new_builder (\<lambda>f no ni. 0 < no)) E2_zero_value
               \<lparr>A0 = Wire 0, A1 = Constant 3\<rparr>))
       (fst (E2_Mul \<lparr>uSquare = - 5\<rparr> (new_builder (\<lambda>f no ni. 0 < no)) E2_zero_value
               \<lparr>A0 = Wire 0, A1 = Constant 3\<rparr> \<lparr>A0 = Wire 0, A1 = Constant 3\<rparr>))"
  using Square_eq_Mul [of "\<lparr>uSquare = - 5\<rparr>" fr_Modulus "\<lambda>n. 7 + int n"
      "new_builder (\<lambda>f no ni. 0 < no)" E2_zero_value "\<lparr>A0 = Wire 0, A1 = Constant 3\<rparr>"]
  by simp

text \<open>
  The condition on the non-residue is needed: if the square agrees with the product
  on every element, then \<open>uSquare = -5\<close> in the base field.
\<close>

lemma Square_needs_minus_five:
  assumes "\<forall>x. E2_equal p w (fst (E2_Square ext api e x)) (fst (E2_Mul ext api e x x))"
  shows "(uSquare ext + 5) mod p = 0"
proof -
  let ?x = "\<lparr>A0 = Constant 1, A1 = Constant 1\<rparr>"
  define T :: int where "T = 1 mod p * (1 mod p)"
  define A where "A = T + uSquare ext * T"
  define K where "K = uSquare ext + 5"
  from assms have "E2_equal p w (fst (E2_Square ext api e ?x)) (fst (E2_Mul ext api e ?x ?x))" by blast
  then have "eval p w (A0 (fst (E2_Square ext api e ?x))) = eval p w (A0 (fst (E2_Mul ext api e ?x ?x)))"
    by (simp add: E2_equal_def)
  then have "(A + K * T) mod p = A mod p"
    unfolding E2_Square_A0 E2_Mul_A0 by (simp add: A_def K_def T_def)
  then have "p dvd (A + K * T) - A"
    by (simp only: mod_eq_dvd_iff)
  then have kt: "(K * T) mod p = 0"
    by (simp add: dvd_eq_mod_eq_0)
  have "T mod p = 1 mod p"
    by (simp add: T_def mod_simps)
  then have "(K * (T mod p)) mod p = (K * (1 mod p)) mod p" by simp
  then have "(K * T) mod p = K mod p" by (simp add: mod_simps)
  with kt show ?thesis by (simp add: K_def)
qed

subsection \<open>Division in the base field\<close>

lemma egcd_bezout:
  "egcd a b = (g, u, v) \<Longrightarrow> g = gcd a b \<and> u * int a + v * int b = int g"
proof (induction a b arbitrary: g u v rule: egcd.induct)
  case (1 a b)
  show ?case
  proof (cases "b = 0")
    case True
    with "1.prems" show ?thesis by (simp add: egcd.simps)
  next
    case False
    obtain g' u' v' where r: "egcd b (a mod b) = (g', u', v')"
      by (cases "egcd b (a mod b)") auto
    from "1.IH" [OF False r]
    have ih: "g' = gcd b (a mod b)" "u' * int b + v' * int (a mod b) = int g'" by auto
    from False r have "egcd a b = (g', v', u' - int (a div b) * v')"
      by (simp add: egcd.simps [of a b])
    with "1.prems" have "(g, u, v) = (g', v', u' - int (a div b) * v')"
      by (rule trans [OF sym])
    then have res: "g = g'" "u = v'" "v = u' - int (a div b) * v'"
      by blast+
    have g: "g = gcd a b" using ih(1) res(1) by (metis gcd.commute gcd_red_nat)
    have "int a = int (a div b) * int b + int (a mod b)"
      by (metis div_mult_mod_eq of_nat_add of_nat_mult)
    then have "u * int a + v * int b = u' * int b + v' * int (a mod b)"
      unfolding res by (simp add: algebra_simps)
    with ih(2) res(1) g show ?thesis by simp
  qed
qed

lemma prime_modulus_coprime:
  assumes "prime_modulus p" and "0 < c" and "c < p"
  shows "gcd (nat c) (nat p) = 1"
proof -
  let ?g = "gcd (nat c) (nat p)"
  have gp: "int ?g dvd p" using assms(1)
    by (metis gcd_dvd2 int_dvd_int_iff int_nat_eq prime_modulus_def less_le_not_le zero_le_one order_trans linear)
  have "?g dvd nat c" by simp
  then have "?g \<le> nat c" using assms(2) by (simp add: dvd_imp_le)
  then have lt: "int ?g < p" using assms(2,3) by linarith
  have pos: "0 < ?g" using assms(2) by (simp add: gcd_pos_nat)
  show ?thesis
  proof (rule ccontr)
    assume "?g \<noteq> 1"
    with pos have "2 \<le> int ?g" by linarith
    with lt have "int ?g \<in> {2..<p}" by simp
    with assms(1) gp show False by (auto simp: prime_modulus_def)
  qed
qed

lemma fp_inverse_correct:
  assumes "prime_modulus p" and "c mod p \<noteq> 0"
  shows "(c * fp_inverse p c) mod p = 1"
proof -
  from assms(1) have p: "1 < p" by (simp add: prime_modulus_def)
  define a where "a = c mod p"
  have "0 \<le> a" "a < p" using p by (simp_all add: a_def)
  with assms(2) have a: "0 < a" "a < p" by (simp_all add: a_def less_le)
  obtain g u v where r: "egcd (nat a) (nat p) = (g, u, v)"
    by (cases "egcd (nat a) (nat p)") auto
  from egcd_bezout [OF r] prime_modulus_coprime [OF assms(1) a]
  have "u * int (nat a) + v * int (nat p) = 1" by simp
  with a p have bz: "u * a + v * p = 1" by simp
  have inv: "fp_inverse p c = u mod p" using r by (simp add: fp_inverse_def a_def)
  have "(c * fp_inverse p c) mod p = (a * u) mod p"
    unfolding inv a_def by (simp add: mod_simps)
  also have "a * u = 1 - v * p" using bz by (simp add: algebra_simps)
  also have "(1 - v * p) mod p = 1 mod p"
    by (metis diff_zero mod_diff_right_eq mod_mult_self2_is_0)
  also have "\<dots> = 1" using p by simp
  finally show ?thesis .
qed

subsection \<open>Multiplication by the non-residue, conjugation\<close>

lemma mod_mult_one_mod:
  fixes k t p :: int
  shows "(k * (1 mod p * t)) mod p = (k * t) mod p"
proof -
  have "(k * (1 mod p * t)) mod p = ((1 mod p) * (k * t)) mod p"
    by (simp add: mult.left_commute)
  also have "\<dots> = (1 * (k * t)) mod p"
    by (rule mod_mult_left_eq)
  finally show ?thesis by simp
qed

text \<open>
  C6: \<open>MulByNonResidue\<close> returns \<open>(x.A1 * nonResidue, x.A0)\<close>, and this element
  equals the product \<open>Mul(x, (0, 1))\<close> of \<open>x\<close> with the basis element \<open>u\<close>.
\<close>

theorem MulByNonResidue_is_Mul_by_u:
  "fst (E2_MulByNonResidue ext api e x) =
     \<lparr>A0 = api_Mul (A1 x) (Constant (uSquare ext)), A1 = A0 x\<rparr>
   \<and> E2_equal p w (fst (E2_MulByNonResidue ext api e x))
        (fst (E2_Mul ext api e x \<lparr>A0 = Constant 0, A1 = Constant 1\<rparr>))"
proof -
  have s: "fst (E2_MulByNonResidue ext api e x) =
     \<lparr>A0 = api_Mul (A1 x) (Constant (uSquare ext)), A1 = A0 x\<rparr>"
    by (simp add: E2_MulByNonResidue_def Let_def)
  have a0: "eval p w (api_Mul (A1 x) (Constant (uSquare ext))) =
      eval p w (A0 (fst (E2_Mul ext api e x \<lparr>A0 = Constant 0, A1 = Constant 1\<rparr>)))"
    unfolding E2_Mul_A0 by (simp add: mod_simps mult.commute mod_mult_one_mod)
  have "eval p w (A1 (fst (E2_Mul ext api e x \<lparr>A0 = Constant 0, A1 = Constant 1\<rparr>))) =
      (eval p w (A0 x) * (1 mod p)) mod p"
    unfolding E2_Mul_A1 by simp
  also have "\<dots> = eval p w (A0 x) mod p" by (simp add: mod_simps)
  finally have a1: "eval p w (A1 (fst (E2_Mul ext api e x \<lparr>A0 = Constant 0, A1 = Constant 1\<rparr>))) =
      eval p w (A0 x)" by simp
  show ?thesis unfolding s using a0 a1 by (simp add: E2_equal_def)
qed

text \<open>
  C7: \<open>Conjugate\<close> keeps the first coordinate (the same variable), negates the
  second in the base field, and applied twice gives back an element equal to \<open>x\<close>.
\<close>

theorem Conjugate_involution:
  "A0 (fst (E2_Conjugate api e x)) = A0 x
   \<and> eval p w (A1 (fst (E2_Conjugate api e x))) = (- eval p w (A1 x)) mod p
   \<and> E2_equal p w (fst (E2_Conjugate api e' (fst (E2_Conjugate api e x)))) x"
  by (simp add: E2_Conjugate_def Let_def E2_equal_def mod_simps)

subsection \<open>Scalar division\<close>

lemma prime_13: "prime_modulus 13"
  by code_simp

lemma DivUnchecked_Mul:
  assumes "prime_modulus p" and "eval p w c \<noteq> 0"
  shows "eval p w (api_Mul (api_DivUnchecked a c) c) = eval p w a"
proof -
  have "eval p w c mod p \<noteq> 0" using assms(2) by simp
  from fp_inverse_correct [OF assms(1) this]
  have one: "(eval p w c * fp_inverse p (eval p w c)) mod p = 1" .
  have "eval p w (api_Mul (api_DivUnchecked a c) c) =
      (eval p w a * (eval p w c * fp_inverse p (eval p w c))) mod p"
    by (simp add: mod_simps algebra_simps)
  also have "\<dots> = (eval p w a * ((eval p w c * fp_inverse p (eval p w c)) mod p)) mod p"
    by (simp add: mod_simps)
  also have "\<dots> = eval p w a" unfolding one by simp
  finally show ?thesis .
qed

text \<open>
  C8: \<open>DivByFp\<close> divides both coordinates by \<open>c\<close> with the unchecked division and
  leaves the builder as it was (no constraint, in particular none on \<open>c\<close>); when
  \<open>c\<close> is not zero in the field, multiplying the quotient by \<open>c\<close> gives back \<open>x\<close>.
\<close>

theorem DivByFp_unchecked:
  "fst (E2_DivByFp api e x c) = \<lparr>A0 = api_DivUnchecked (A0 x) c, A1 = api_DivUnchecked (A1 x) c\<rparr>
   \<and> snd (E2_DivByFp api e x c) = api
   \<and> (prime_modulus p \<and> eval p w c \<noteq> 0 \<longrightarrow>
        E2_equal p w (fst (E2_MulByFp api' e' (fst (E2_DivByFp api e x c)) c)) x)"
  by (simp add: E2_DivByFp_def E2_MulByFp_def Let_def E2_equal_def DivUnchecked_Mul del: eval.simps)

theorem DivByFp_unchecked_witness:
  "prime_modulus 13 \<and> eval 13 (\<lambda>n. 0) (Constant 5) \<noteq> 0
   \<and> E2_equal 13 (\<lambda>n. 0)
        (fst (E2_MulByFp (new_builder (\<lambda>f no ni. 0 < no)) E2_zero_value
           (fst (E2_DivByFp (new_builder (\<lambda>f no ni. 0 < no)) E2_zero_value
                  \<lparr>A0 = Constant 2, A1 = Constant 3\<rparr> (Constant 5))) (Constant 5)))
        \<lparr>A0 = Constant 2, A1 = Constant 3\<rparr>"
proof -
  have h: "prime_modulus 13 \<and> eval 13 (\<lambda>n. 0) (Constant 5) \<noteq> 0"
    by (simp add: prime_13)
  note th = DivByFp_unchecked [of "new_builder (\<lambda>f no ni. 0 < no)" E2_zero_value
      "\<lparr>A0 = Constant 2, A1 = Constant 3\<rparr>" "Constant 5" 13 "\<lambda>n. 0"
      "new_builder (\<lambda>f no ni. 0 < no)" E2_zero_value, THEN conjunct2, THEN conjunct2]
  from th h show ?thesis by blast
qed

subsection \<open>Inversion and division through hints\<close>

lemma upt_two: "[n ..< n + 2] = [n, Suc n]"
  by (simp add: upt_conv_Cons numeral_2_eq_2)

lemma api_NewHint_two:
  "api_NewHint api f 2 inputs =
     (if validHint api f 2 (length inputs)
      then Inr ([Wire (nbWires api), Wire (Suc (nbWires api))],
                api\<lparr>nbWires := nbWires api + 2,
                    hints := hints api @ [(f, inputs, [Wire (nbWires api), Wire (Suc (nbWires api))])]\<rparr>)
      else Inl (InvalidHintArity 2 (length inputs)))"
  by (simp add: api_NewHint_def Let_def upt_two)

lemma length_two: "length [a, b] = 2"
  by simp

lemma length_four: "length [a, b, c, d] = 4"
  by simp

lemma E2_assign_two: "E2_assign e [a, b] = Inr \<lparr>A0 = a, A1 = b\<rparr>"
  by (simp add: E2_assign_def index_def Let_def)

lemma slice_to_two: "slice_to [a, b] 2 = Inr [a, b]"
  by (simp add: slice_to_def)

lemma E2_Inverse_result:
  "E2_Inverse ext api e e1 =
     (if validHint api Hint_InverseE2 2 2
      then Inr (hinted api,
                api\<lparr>nbWires := nbWires api + 2,
                    hints := hints api @ [(Hint_InverseE2, [A0 e1, A1 e1], [A0 (hinted api), A1 (hinted api)])],
                    assertions := assertions api @
                      [(A0 (fst (E2_Mul ext api (hinted api) (hinted api) e1)), Constant 1),
                       (A1 (fst (E2_Mul ext api (hinted api) (hinted api) e1)), Constant 0)]\<rparr>)
      else Inl (Panic_error (InvalidHintArity 2 2)))"
  unfolding E2_Inverse_def api_NewHint_two length_two
  by (simp add: slice_to_two E2_assign_two hinted_def
      E2_Mul_def E2_MustBeEqual_def api_AssertIsEqual_def E2_SetOne_def E2_zero_value_def Let_def)

lemma E2_DivUnchecked_result:
  "E2_DivUnchecked ext api e e1 e2 =
     (if validHint api Hint_DivE2 2 4
      then Inr (hinted api,
                api\<lparr>nbWires := nbWires api + 2,
                    hints := hints api @ [(Hint_DivE2, [A0 e1, A1 e1, A0 e2, A1 e2], [A0 (hinted api), A1 (hinted api)])],
                    assertions := assertions api @
                      [(A0 (fst (E2_Mul ext api (hinted api) (hinted api) e2)), A0 e1),
                       (A1 (fst (E2_Mul ext api (hinted api) (hinted api) e2)), A1 e1)]\<rparr>)
      else Inl (Panic_error (InvalidHintArity 2 4)))"
  unfolding E2_DivUnchecked_def api_NewHint_two length_four
  by (simp add: slice_to_two E2_assign_two hinted_def
      E2_Mul_def E2_MustBeEqual_def api_AssertIsEqual_def E2_zero_value_def Let_def)

lemma E2_Mul_receiver: "fst (E2_Mul ext api e x y) = fst (E2_Mul ext api' e' x y)"
  by (simp add: E2_Mul_def Let_def)

lemma E2_Inverse_assertions:
  assumes "E2_Inverse ext api e e1 = Inr (e', api')"
  shows "assertions api' = assertions api @
          [(A0 (fst (E2_Mul ext api e' e' e1)), Constant 1),
           (A1 (fst (E2_Mul ext api e' e' e1)), Constant 0)]"
proof -
  from assms have v: "validHint api Hint_InverseE2 2 2"
    by (simp add: E2_Inverse_result split: if_splits)
  with assms show ?thesis
    by (auto simp add: E2_Inverse_result)
qed

text \<open>
  C3: when \<open>Inverse\<close> returns, it has requested one hint with the inputs
  \<open>(x.A0, x.A1)\<close> and two outputs, which are the coordinates of the returned
  element, and has added exactly the two equality constraints of
  \<open>hinted * x == (1, 0)\<close>; hence under every assignment of the wires that satisfies
  the constraints of the builder, the returned element times \<open>x\<close> equals one.
  This holds for every \<open>x\<close>; the constraints can be satisfied only if \<open>x\<close> is
  not zero.
\<close>

theorem Inverse_sound:
  assumes "E2_Inverse ext api e e1 = Inr (e', api')"
  shows "hints api' = hints api @ [(Hint_InverseE2, [A0 e1, A1 e1], [A0 e', A1 e'])]
     \<and> assertions api' = assertions api @
          [(A0 (fst (E2_Mul ext api e' e' e1)), Constant 1),
           (A1 (fst (E2_Mul ext api e' e' e1)), Constant 0)]
     \<and> (\<forall>w. satisfied p w api' \<longrightarrow>
          E2_equal p w (fst (E2_Mul ext api' r e' e1)) (E2_SetOne one))"
proof -
  from assms have v: "validHint api Hint_InverseE2 2 2"
    by (simp add: E2_Inverse_result split: if_splits)
  define B where "B = api\<lparr>nbWires := nbWires api + 2,
                    hints := hints api @ [(Hint_InverseE2, [A0 e1, A1 e1], [A0 (hinted api), A1 (hinted api)])],
                    assertions := assertions api @
                      [(A0 (fst (E2_Mul ext api (hinted api) (hinted api) e1)), Constant 1),
                       (A1 (fst (E2_Mul ext api (hinted api) (hinted api) e1)), Constant 0)]\<rparr>"
  from v have "E2_Inverse ext api e e1 = Inr (hinted api, B)"
    unfolding B_def by (simp only: E2_Inverse_result if_True)
  with assms have "Inr (e', api') = Inr (hinted api, B)"
    by simp
  then have e': "e' = hinted api" and api': "api' = B"
    by simp_all
  have h: "hints api' = hints api @ [(Hint_InverseE2, [A0 e1, A1 e1], [A0 e', A1 e'])]"
    by (simp add: api' e' B_def)
  have a: "assertions api' = assertions api @
          [(A0 (fst (E2_Mul ext api e' e' e1)), Constant 1),
           (A1 (fst (E2_Mul ext api e' e' e1)), Constant 0)]"
    by (simp add: api' e' B_def)
  have s: "satisfied p w api' \<longrightarrow> E2_equal p w (fst (E2_Mul ext api' r e' e1)) (E2_SetOne one)" for w
    unfolding satisfied_def a E2_Mul_receiver [of ext api' r e' e1 api e']
    by (simp add: holds_def E2_equal_def E2_SetOne_def Let_def del: eval.simps)
  from h a s show ?thesis by blast
qed

theorem Inverse_sound_witness:
  "(case E2_Inverse ext5 accepting E2_zero_value x23 of
      Inl pn \<Rightarrow> False
    | Inr (e', api') \<Rightarrow>
        satisfied fr_Modulus inverse_values api'
        \<and> E2_equal fr_Modulus inverse_values (fst (E2_Mul ext5 api' E2_zero_value e' x23)) (E2_SetOne E2_zero_value))"
proof -
  obtain e' api' where r: "E2_Inverse ext5 accepting E2_zero_value x23 = Inr (e', api')"
    by (simp add: E2_Inverse_result examples)
  then have s: "satisfied fr_Modulus inverse_values api'"
    by (auto simp add: E2_Inverse_result examples hinted_def satisfied_def holds_def
        E2_Mul_def Let_def fr_Modulus_def inverse_values_def)
  from Inverse_sound [OF r, of fr_Modulus E2_zero_value E2_zero_value, THEN conjunct2, THEN conjunct2] s
  have "E2_equal fr_Modulus inverse_values (fst (E2_Mul ext5 api' E2_zero_value e' x23)) (E2_SetOne E2_zero_value)"
    by blast
  with r s show ?thesis by simp
qed

text \<open>
  C4: when \<open>DivUnchecked\<close> returns, it has requested one hint with the inputs
  \<open>(a.A0, a.A1, b.A0, b.A1)\<close> and two outputs, the coordinates of the returned
  element, and has added exactly the two equality constraints of
  \<open>hinted * b == a\<close>; hence under every assignment of the wires that satisfies the
  constraints of the builder, the returned element times \<open>b\<close> equals \<open>a\<close>.
\<close>

theorem DivUnchecked_sound:
  assumes "E2_DivUnchecked ext api e e1 e2 = Inr (e', api')"
  shows "hints api' = hints api @ [(Hint_DivE2, [A0 e1, A1 e1, A0 e2, A1 e2], [A0 e', A1 e'])]
     \<and> assertions api' = assertions api @
          [(A0 (fst (E2_Mul ext api e' e' e2)), A0 e1),
           (A1 (fst (E2_Mul ext api e' e' e2)), A1 e1)]
     \<and> (\<forall>w. satisfied p w api' \<longrightarrow> E2_equal p w (fst (E2_Mul ext api' r e' e2)) e1)"
proof -
  from assms have v: "validHint api Hint_DivE2 2 4"
    by (simp add: E2_DivUnchecked_result split: if_splits)
  define B where "B = api\<lparr>nbWires := nbWires api + 2,
                    hints := hints api @ [(Hint_DivE2, [A0 e1, A1 e1, A0 e2, A1 e2], [A0 (hinted api), A1 (hinted api)])],
                    assertions := assertions api @
                      [(A0 (fst (E2_Mul ext api (hinted api) (hinted api) e2)), A0 e1),
                       (A1 (fst (E2_Mul ext api (hinted api) (hinted api) e2)), A1 e1)]\<rparr>"
  from v have "E2_DivUnchecked ext api e e1 e2 = Inr (hinted api, B)"
    unfolding B_def by (simp only: E2_DivUnchecked_result if_True)
  with assms have "Inr (e', api') = Inr (hinted api, B)"
    by simp
  then have e': "e' = hinted api" and api': "api' = B"
    by simp_all
  have h: "hints api' = hints api @ [(Hint_DivE2, [A0 e1, A1 e1, A0 e2, A1 e2], [A0 e', A1 e'])]"
    by (simp add: api' e' B_def)
  have a: "assertions api' = assertions api @
          [(A0 (fst (E2_Mul ext api e' e' e2)), A0 e1),
           (A1 (fst (E2_Mul ext api e' e' e2)), A1 e1)]"
    by (simp add: api' e' B_def)
  have s: "satisfied p w api' \<longrightarrow> E2_equal p w (fst (E2_Mul ext api' r e' e2)) e1" for w
    unfolding satisfied_def a E2_Mul_receiver [of ext api' r e' e2 api e']
    by (simp add: holds_def E2_equal_def del: eval.simps)
  from h a s show ?thesis by blast
qed

theorem DivUnchecked_sound_witness:
  "(case E2_DivUnchecked ext5 accepting E2_zero_value a57 x23 of
      Inl pn \<Rightarrow> False
    | Inr (e', api') \<Rightarrow>
        satisfied fr_Modulus quotient_values api'
        \<and> E2_equal fr_Modulus quotient_values (fst (E2_Mul ext5 api' E2_zero_value e' x23)) a57)"
proof -
  obtain e' api' where r: "E2_DivUnchecked ext5 accepting E2_zero_value a57 x23 = Inr (e', api')"
    by (simp add: E2_DivUnchecked_result examples)
  then have s: "satisfied fr_Modulus quotient_values api'"
    by (auto simp add: E2_DivUnchecked_result examples hinted_def satisfied_def holds_def
        E2_Mul_def Let_def fr_Modulus_def quotient_values_def)
  from DivUnchecked_sound [OF r, of fr_Modulus E2_zero_value, THEN conjunct2, THEN conjunct2] s
  have "E2_equal fr_Modulus quotient_values (fst (E2_Mul ext5 api' E2_zero_value e' x23)) a57"
    by blast
  with r s show ?thesis by simp
qed

text \<open>
  C5: if the hint request of \<open>Inverse\<close> or of \<open>DivUnchecked\<close> fails, the operation
  panics with that error and returns nothing; and whenever one of them returns, the
  request succeeded and the returned coordinates are the whole list of its outputs.
\<close>

theorem hint_failure_panics:
  "(api_NewHint api Hint_InverseE2 2 [A0 e1, A1 e1] = Inl err \<longrightarrow>
      E2_Inverse ext api e e1 = Inl (Panic_error err))
   \<and> (api_NewHint api Hint_DivE2 2 [A0 e1, A1 e1, A0 e2, A1 e2] = Inl err \<longrightarrow>
      E2_DivUnchecked ext api e e1 e2 = Inl (Panic_error err))
   \<and> (\<forall>e' api'. E2_Inverse ext api e e1 = Inr (e', api') \<longrightarrow>
        (\<exists>b. api_NewHint api Hint_InverseE2 2 [A0 e1, A1 e1] = Inr ([A0 e', A1 e'], b)))
   \<and> (\<forall>e' api'. E2_DivUnchecked ext api e e1 e2 = Inr (e', api') \<longrightarrow>
        (\<exists>b. api_NewHint api Hint_DivE2 2 [A0 e1, A1 e1, A0 e2, A1 e2] = Inr ([A0 e', A1 e'], b)))"
proof -
  have 1: "api_NewHint api Hint_InverseE2 2 [A0 e1, A1 e1] = Inl err \<longrightarrow>
      E2_Inverse ext api e e1 = Inl (Panic_error err)"
    by (simp add: E2_Inverse_def)
  have 2: "api_NewHint api Hint_DivE2 2 [A0 e1, A1 e1, A0 e2, A1 e2] = Inl err \<longrightarrow>
      E2_DivUnchecked ext api e e1 e2 = Inl (Panic_error err)"
    by (simp add: E2_DivUnchecked_def)
  have 3: "E2_Inverse ext api e e1 = Inr (e', api') \<longrightarrow>
        (\<exists>b. api_NewHint api Hint_InverseE2 2 [A0 e1, A1 e1] = Inr ([A0 e', A1 e'], b))" for e' api'
  proof
    assume r: "E2_Inverse ext api e e1 = Inr (e', api')"
    then have v: "validHint api Hint_InverseE2 2 2"
      by (simp add: E2_Inverse_result split: if_splits)
    with r have "e' = hinted api"
      by (simp add: E2_Inverse_result)
    with v show "\<exists>b. api_NewHint api Hint_InverseE2 2 [A0 e1, A1 e1] = Inr ([A0 e', A1 e'], b)"
      unfolding api_NewHint_two length_two by (simp add: hinted_def)
  qed
  have 4: "E2_DivUnchecked ext api e e1 e2 = Inr (e', api') \<longrightarrow>
        (\<exists>b. api_NewHint api Hint_DivE2 2 [A0 e1, A1 e1, A0 e2, A1 e2] = Inr ([A0 e', A1 e'], b))" for e' api'
  proof
    assume r: "E2_DivUnchecked ext api e e1 e2 = Inr (e', api')"
    then have v: "validHint api Hint_DivE2 2 4"
      by (simp add: E2_DivUnchecked_result split: if_splits)
    with r have "e' = hinted api"
      by (simp add: E2_DivUnchecked_result)
    with v show "\<exists>b. api_NewHint api Hint_DivE2 2 [A0 e1, A1 e1, A0 e2, A1 e2] = Inr ([A0 e', A1 e'], b)"
      unfolding api_NewHint_two length_four by (simp add: hinted_def)
  qed
  from 1 2 3 4 show ?thesis by blast
qed

theorem hint_failure_panics_witness:
  "api_NewHint rejecting Hint_InverseE2 2 [A0 x23, A1 x23] = Inl (InvalidHintArity 2 2)
   \<and> E2_Inverse ext5 rejecting E2_zero_value x23 = Inl (Panic_error (InvalidHintArity 2 2))
   \<and> api_NewHint rejecting Hint_DivE2 2 [A0 a57, A1 a57, A0 x23, A1 x23] = Inl (InvalidHintArity 2 4)
   \<and> E2_DivUnchecked ext5 rejecting E2_zero_value a57 x23 = Inl (Panic_error (InvalidHintArity 2 4))
   \<and> (case E2_Inverse ext5 accepting E2_zero_value x23 of
         Inl pn \<Rightarrow> False
       | Inr (e', api') \<Rightarrow>
           (\<exists>b. api_NewHint accepting Hint_InverseE2 2 [A0 x23, A1 x23] = Inr ([A0 e', A1 e'], b)))
   \<and> (case E2_DivUnchecked ext5 accepting E2_zero_value a57 x23 of
         Inl pn \<Rightarrow> False
       | Inr (e', api') \<Rightarrow>
           (\<exists>b. api_NewHint accepting Hint_DivE2 2 [A0 a57, A1 a57, A0 x23, A1 x23] = Inr ([A0 e', A1 e'], b)))"
proof -
  have n1: "api_NewHint rejecting Hint_InverseE2 2 [A0 x23, A1 x23] = Inl (InvalidHintArity 2 2)"
    unfolding api_NewHint_two length_two by (simp add: examples)
  have n2: "api_NewHint rejecting Hint_DivE2 2 [A0 a57, A1 a57, A0 x23, A1 x23] = Inl (InvalidHintArity 2 4)"
    unfolding api_NewHint_two length_four by (simp add: examples)
  obtain e' api' where r: "E2_Inverse ext5 accepting E2_zero_value x23 = Inr (e', api')"
    by (simp add: E2_Inverse_result examples)
  obtain d' bpi' where d: "E2_DivUnchecked ext5 accepting E2_zero_value a57 x23 = Inr (d', bpi')"
    by (simp add: E2_DivUnchecked_result examples)
  note bad = hint_failure_panics [of rejecting x23 "InvalidHintArity 2 2" ext5 E2_zero_value a57]
  note bad' = hint_failure_panics [of rejecting a57 "InvalidHintArity 2 4" ext5 E2_zero_value x23]
  note good = hint_failure_panics [of accepting x23 "InvalidHintArity 2 2" ext5 E2_zero_value x23]
  note good' = hint_failure_panics [of accepting a57 "InvalidHintArity 2 2" ext5 E2_zero_value x23]
  from bad n1 have p1: "E2_Inverse ext5 rejecting E2_zero_value x23 = Inl (Panic_error (InvalidHintArity 2 2))"
    by blast
  from bad' n2 have p2: "E2_DivUnchecked ext5 rejecting E2_zero_value a57 x23 = Inl (Panic_error (InvalidHintArity 2 4))"
    by blast
  from good r have p3: "\<exists>b. api_NewHint accepting Hint_InverseE2 2 [A0 x23, A1 x23] = Inr ([A0 e', A1 e'], b)"
    by blast
  from good' d have p4: "\<exists>b. api_NewHint accepting Hint_DivE2 2 [A0 a57, A1 a57, A0 x23, A1 x23] = Inr ([A0 d', A1 d'], b)"
    by blast
  from n1 n2 p1 p2 p3 p4 r d show ?thesis by simp
qed

subsection \<open>Receiver and operands\<close>

text \<open>
  C9: what a method leaves in its receiver does not depend on what the receiver
  held before the call, so a call whose receiver is also an operand
  (\<open>e.Mul(api, *e, *e)\<close>, \<open>e.Square(api, *e)\<close>, \<open>e.MulByNonResidue(api, *e)\<close>)
  gives the result of the call with a separate receiver \<open>r\<close>; this holds for every
  method of the file.
\<close>

theorem receiver_aliasing_safe:
  "E2_Mul ext api x x x = E2_Mul ext api r x x
   \<and> E2_Square ext api x x = E2_Square ext api r x
   \<and> E2_MulByNonResidue ext api x x = E2_MulByNonResidue ext api r x
   \<and> E2_Neg api e x = E2_Neg api r x
   \<and> E2_Add api e x y = E2_Add api r x y
   \<and> E2_Double api e x = E2_Double api r x
   \<and> E2_Sub api e x y = E2_Sub api r x y
   \<and> E2_Mul ext api e x y = E2_Mul ext api r x y
   \<and> E2_Square ext api e x = E2_Square ext api r x
   \<and> E2_DivByFp api e x c = E2_DivByFp api r x c
   \<and> E2_MulByFp api e x c = E2_MulByFp api r x c
   \<and> E2_MulByNonResidue ext api e x = E2_MulByNonResidue ext api r x
   \<and> E2_Conjugate api e x = E2_Conjugate api r x
   \<and> E2_Inverse ext api e x = E2_Inverse ext api r x
   \<and> E2_DivUnchecked ext api e x y = E2_DivUnchecked ext api r x y"
  by (simp add: E2_Neg_def E2_Add_def E2_Double_def E2_Sub_def E2_Mul_def E2_Square_def
      E2_DivByFp_def E2_MulByFp_def E2_MulByNonResidue_def E2_Conjugate_def
      E2_Inverse_result E2_DivUnchecked_result Let_def)

subsection \<open>The oracle functions return no error\<close>

lemma InverseE2Hint_result:
  assumes "2 \<le> length inputs" and "2 \<le> length res"
  shows "InverseE2Hint lib curve inputs res =
     Inr (res[0 := ToBigIntRegular lib (fst (Inverse lib (SetBigInt lib (inputs ! 0), SetBigInt lib (inputs ! 1)))),
              1 := ToBigIntRegular lib (snd (Inverse lib (SetBigInt lib (inputs ! 0), SetBigInt lib (inputs ! 1))))],
          None)"
proof -
  have i: "index inputs 0 = Inr (inputs ! 0)" "index inputs 1 = Inr (inputs ! 1)"
    using assms(1) by (auto simp add: index_def)
  have r: "index res 0 = Inr (res ! 0)" "index (res[0 := v]) 1 = Inr (res[0 := v] ! 1)" for v
    using assms(2) by (auto simp add: index_def)
  show ?thesis
    unfolding InverseE2Hint_def Let_def i r sum.case by simp
qed

lemma DivE2Hint_result:
  assumes "4 \<le> length inputs" and "2 \<le> length res"
  shows "DivE2Hint lib curve inputs res =
     Inr (res[0 := ToBigIntRegular lib (fst (Mul lib (Inverse lib (SetBigInt lib (inputs ! 2), SetBigInt lib (inputs ! 3)))
                                                  (SetBigInt lib (inputs ! 0), SetBigInt lib (inputs ! 1)))),
              1 := ToBigIntRegular lib (snd (Mul lib (Inverse lib (SetBigInt lib (inputs ! 2), SetBigInt lib (inputs ! 3)))
                                                  (SetBigInt lib (inputs ! 0), SetBigInt lib (inputs ! 1))))],
          None)"
proof -
  have i: "index inputs 0 = Inr (inputs ! 0)" "index inputs 1 = Inr (inputs ! 1)"
    "index inputs 2 = Inr (inputs ! 2)" "index inputs 3 = Inr (inputs ! 3)"
    using assms(1) by (auto simp add: index_def)
  have r: "index res 0 = Inr (res ! 0)" "index (res[0 := v]) 1 = Inr (res[0 := v] ! 1)" for v
    using assms(2) by (auto simp add: index_def)
  show ?thesis
    unfolding DivE2Hint_def Let_def i r sum.case by simp
qed

lemma hint_error_nil:
  "InverseE2Hint lib curve inputs res = Inr (res', err) \<Longrightarrow> err = None"
  "DivE2Hint lib curve inputs res = Inr (res', err) \<Longrightarrow> err = None"
  by (auto simp add: InverseE2Hint_def DivE2Hint_def Let_def split: sum.splits)

lemma fp_inverse_zero: "fp_inverse fr_Modulus 0 = 0"
  by (simp add: fp_inverse_def fr_Modulus_def egcd.simps)

lemma Inverse_rejects_zero:
  assumes "1 < p" and "eval p w (A0 x) = 0" and "eval p w (A1 x) = 0"
    and "E2_Inverse ext api e x = Inr (e', api')"
  shows "\<not> satisfied p w api'"
proof -
  from E2_Inverse_assertions [OF assms(4)]
  have a: "assertions api' = assertions api @
          [(A0 (fst (E2_Mul ext api e' e' x)), Constant 1),
           (A1 (fst (E2_Mul ext api e' e' x)), Constant 0)]" .
  have "eval p w (A0 (fst (E2_Mul ext api e' e' x))) = 0"
    unfolding E2_Mul_A0 assms(2,3) by simp
  moreover have "eval p w (Constant 1) = 1" using assms(1) by simp
  ultimately have "\<not> holds p w (A0 (fst (E2_Mul ext api e' e' x)), Constant 1)"
    by (simp add: holds_def del: eval.simps)
  then show ?thesis unfolding satisfied_def a by simp
qed

text \<open>
  C10: on slices long enough for the indices they use, \<open>InverseE2Hint\<close> and
  \<open>DivE2Hint\<close> return the \<open>nil\<close> error for every input, the zero element included,
  whatever the library computes; they return no other error on any input. What the
  oracle gives for the inverse of zero is refused in the circuit: no assignment
  satisfies the constraints \<open>Inverse\<close> emits for an element that is zero.
\<close>

theorem hints_return_nil:
  "(2 \<le> length inputs \<and> 2 \<le> length res \<longrightarrow>
      (\<exists>res'. InverseE2Hint lib curve inputs res = Inr (res', None)))
   \<and> (4 \<le> length inputs \<and> 2 \<le> length res \<longrightarrow>
      (\<exists>res'. DivE2Hint lib curve inputs res = Inr (res', None)))
   \<and> (\<forall>res' err. InverseE2Hint lib curve inputs res = Inr (res', err) \<longrightarrow> err = None)
   \<and> (\<forall>res' err. DivE2Hint lib curve inputs res = Inr (res', err) \<longrightarrow> err = None)
   \<and> (\<forall>e' api'. 1 < p \<and> eval p w (A0 x) = 0 \<and> eval p w (A1 x) = 0
         \<and> E2_Inverse ext api e x = Inr (e', api') \<longrightarrow> \<not> satisfied p w api')"
  using InverseE2Hint_result [of inputs res lib curve] DivE2Hint_result [of inputs res lib curve]
    hint_error_nil [of lib curve inputs res] Inverse_rejects_zero [of p w x ext api e]
  by blast

theorem hints_return_nil_witness:
  "2 \<le> length [0, 0 :: int] \<and> 2 \<le> length [7, 7 :: int]
   \<and> InverseE2Hint (fp2_library fr_Modulus) 1 [0, 0] [7, 7] = Inr ([0, 0], None)
   \<and> 4 \<le> length [5, 7, 0, 0 :: int]
   \<and> DivE2Hint (fp2_library fr_Modulus) 1 [5, 7, 0, 0] [7, 7] = Inr ([0, 0], None)
   \<and> 1 < fr_Modulus
   \<and> eval fr_Modulus inverse_values (A0 (E2_SetZero E2_zero_value)) = 0
   \<and> eval fr_Modulus inverse_values (A1 (E2_SetZero E2_zero_value)) = 0
   \<and> (case E2_Inverse ext5 accepting E2_zero_value (E2_SetZero E2_zero_value) of
         Inl pn \<Rightarrow> False
       | Inr (e', api') \<Rightarrow> \<not> satisfied fr_Modulus inverse_values api')"
proof -
  note th = hints_return_nil [of "[0, 0]" "[7, 7]" "fp2_library fr_Modulus" 1 fr_Modulus
      inverse_values "E2_SetZero E2_zero_value" ext5 accepting E2_zero_value]
  note th' = hints_return_nil [of "[5, 7, 0, 0]" "[7, 7]" "fp2_library fr_Modulus" 1 fr_Modulus
      inverse_values "E2_SetZero E2_zero_value" ext5 accepting E2_zero_value]
  have l: "2 \<le> length [0, 0 :: int]" "2 \<le> length [7, 7 :: int]" "4 \<le> length [5, 7, 0, 0 :: int]"
    by simp_all
  from th l obtain r1 where r1: "InverseE2Hint (fp2_library fr_Modulus) 1 [0, 0] [7, 7] = Inr (r1, None)"
    by blast
  from th' l obtain r2 where r2: "DivE2Hint (fp2_library fr_Modulus) 1 [5, 7, 0, 0] [7, 7] = Inr (r2, None)"
    by blast
  have v1: "InverseE2Hint (fp2_library fr_Modulus) 1 [0, 0] [7, 7] = Inr ([0, 0], None)"
    using InverseE2Hint_result [OF l(1) l(2), of "fp2_library fr_Modulus" 1]
    by (simp add: fp2_library_def fp_inverse_zero)
  have v2: "DivE2Hint (fp2_library fr_Modulus) 1 [5, 7, 0, 0] [7, 7] = Inr ([0, 0], None)"
    using DivE2Hint_result [OF l(3) l(2), of "fp2_library fr_Modulus" 1]
    by (simp add: fp2_library_def fp_inverse_zero)
  have p: "1 < fr_Modulus" by (simp add: fr_Modulus_def)
  have z: "eval fr_Modulus inverse_values (A0 (E2_SetZero E2_zero_value)) = 0"
    "eval fr_Modulus inverse_values (A1 (E2_SetZero E2_zero_value)) = 0"
    by (simp_all add: E2_SetZero_def Let_def)
  obtain e' api' where r: "E2_Inverse ext5 accepting E2_zero_value (E2_SetZero E2_zero_value) = Inr (e', api')"
    by (simp add: E2_Inverse_result examples)
  from th p z r have "\<not> satisfied fr_Modulus inverse_values api'"
    by blast
  with l r1 r2 v1 v2 p z r show ?thesis by simp
qed

end
